theory Spec2Isabelle
  imports Complex_Main
begin

section \<open>Numbers and vectors\<close>

text \<open>
  The numbers of \<^verbatim>\<open>src/utils/OrbitCamera.ts\<close> are modelled as real numbers: rounding,
  overflow and NaN of the IEEE doubles are outside the model. The one place where the
  source itself introduces a non-finite value is the default of \<^verbatim>\<open>minPitch\<close> and
  \<^verbatim>\<open>maxPitch\<close> (\<^verbatim>\<open>-Infinity\<close>, \<^verbatim>\<open>Infinity\<close>), tested by \<^verbatim>\<open>isFinite\<close>; these two fields
  therefore range over the reals extended by the two infinities.
\<close>

datatype number = Num real | Infinity | NegInfinity

fun isFinite :: "number \<Rightarrow> bool" where
  "isFinite (Num r) = True"
| "isFinite Infinity = False"
| "isFinite NegInfinity = False"

text \<open>The operator \<^verbatim>\<open>??\<close>: the right operand replaces a missing left operand.\<close>

fun nullish :: "'a option \<Rightarrow> 'a \<Rightarrow> 'a" where
  "nullish None d = d"
| "nullish (Some v) d = v"

text \<open>
  \<^verbatim>\<open>pc.Vec3\<close> of the rendering engine: three coordinates. The selectors are \<open>vx\<close>, \<open>vy\<close>,
  \<open>vz\<close> for the fields \<^verbatim>\<open>x\<close>, \<^verbatim>\<open>y\<close>, \<^verbatim>\<open>z\<close>.
\<close>

datatype Vec3 = Vec3 (vx: real) (vy: real) (vz: real)

text \<open>
  \<^verbatim>\<open>Vec3.normalize\<close> of the engine: a vector of positive squared length is scaled by the
  inverse of its length, the zero vector is left as it is.
\<close>

definition normalize :: "Vec3 \<Rightarrow> Vec3" where
  "normalize v =
    (let lengthSq = vx v * vx v + vy v * vy v + vz v * vz v in
     if lengthSq > 0
     then (let invLength = 1 / sqrt lengthSq in
           Vec3 (vx v * invLength) (vy v * invLength) (vz v * invLength))
     else v)"

text \<open>
  Modelled from the spec: \<^verbatim>\<open>pc.math.DEG_TO_RAD\<close>, a constant of the engine that the
  source multiplies by to convert degrees to radians.
\<close>

definition DEG_TO_RAD :: real where
  "DEG_TO_RAD = pi / 180"

text \<open>Vector operations in the words of the specification, for comparison with the code.\<close>

definition vsub :: "Vec3 \<Rightarrow> Vec3 \<Rightarrow> Vec3" where
  "vsub a b = Vec3 (vx a - vx b) (vy a - vy b) (vz a - vz b)"

definition vadd :: "Vec3 \<Rightarrow> Vec3 \<Rightarrow> Vec3" where
  "vadd a b = Vec3 (vx a + vx b) (vy a + vy b) (vz a + vz b)"

definition vscale :: "real \<Rightarrow> Vec3 \<Rightarrow> Vec3" where
  "vscale k a = Vec3 (k * vx a) (k * vy a) (k * vz a)"

definition cross :: "Vec3 \<Rightarrow> Vec3 \<Rightarrow> Vec3" where
  "cross a b = Vec3 (vy a * vz b - vz a * vy b)
                    (vz a * vx b - vx a * vz b)
                    (vx a * vy b - vy a * vx b)"

section \<open>The camera entity\<close>

text \<open>
  The controller only writes to the camera entity, through \<^verbatim>\<open>setPosition\<close> and
  \<^verbatim>\<open>lookAt\<close>. The entity is modelled by the arguments of the last call of each.
\<close>

record Entity =
  position :: Vec3
  lookTarget :: Vec3
  lookUp :: Vec3

definition setPosition :: "real \<Rightarrow> real \<Rightarrow> real \<Rightarrow> Entity \<Rightarrow> Entity" where
  "setPosition px py pz c = c\<lparr>position := Vec3 px py pz\<rparr>"

definition lookAt :: "Vec3 \<Rightarrow> Vec3 \<Rightarrow> Entity \<Rightarrow> Entity" where
  "lookAt t up c = c\<lparr>lookTarget := t, lookUp := up\<rparr>"

section \<open>The controller\<close>

record OrbitCameraOptions =
  opt_distance :: "real option"
  opt_pitch :: "real option"
  opt_yaw :: "real option"
  opt_mouseSpeed :: "real option"
  opt_wheelSpeed :: "real option"
  opt_panSpeed :: "real option"
  opt_minDistance :: "real option"
  opt_maxDistance :: "real option"
  opt_minPitch :: "number option"
  opt_maxPitch :: "number option"

text \<open>
  The fields of the class, and \<open>lastTouchDistance\<close>, the variable shared by the touch
  handlers. The field \<^verbatim>\<open>app\<close> only gives the canvas the handlers are attached to.
\<close>

record OrbitCamera =
  camera :: Entity
  target :: Vec3
  distance :: real
  pitch :: real
  yaw :: real
  mouseSpeed :: real
  wheelSpeed :: real
  panSpeed :: real
  minDistance :: real
  maxDistance :: real
  minPitch :: number
  maxPitch :: number
  isDragging :: bool
  isPanning :: bool
  lastMouseX :: real
  lastMouseY :: real
  lastTouchDistance :: "real option"

definition updateCameraPosition :: "OrbitCamera \<Rightarrow> OrbitCamera" where
  "updateCameraPosition s =
    (let pitchRad = pitch s * DEG_TO_RAD;
         yawRad = yaw s * DEG_TO_RAD;
         px = vx (target s) + distance s * sin yawRad * cos pitchRad;
         py = vy (target s) + distance s * sin pitchRad;
         pz = vz (target s) + distance s * cos yawRad * cos pitchRad;
         cam = setPosition px py pz (camera s);
         rightX = cos yawRad;
         rightY = 0;
         rightZ = - sin yawRad;
         forwardX = vx (target s) - px;
         forwardY = vy (target s) - py;
         forwardZ = vz (target s) - pz;
         upX = forwardY * rightZ - forwardZ * rightY;
         upY = forwardZ * rightX - forwardX * rightZ;
         upZ = forwardX * rightY - forwardY * rightX;
         up = normalize (Vec3 upX upY upZ)
     in s\<lparr>camera := lookAt (target s) up cam\<rparr>)"

text \<open>
  The constructor. It takes the camera entity and the options; the target is always the
  origin. The handlers it registers are the functions of the next section.
\<close>

definition new_OrbitCamera :: "Entity \<Rightarrow> OrbitCameraOptions \<Rightarrow> OrbitCamera" where
  "new_OrbitCamera cam options =
    updateCameraPosition
      \<lparr>camera = cam,
       target = Vec3 0 0 0,
       distance = nullish (opt_distance options) 5,
       pitch = nullish (opt_pitch options) 0,
       yaw = nullish (opt_yaw options) 0,
       mouseSpeed = nullish (opt_mouseSpeed options) 0.3,
       wheelSpeed = nullish (opt_wheelSpeed options) 0.1,
       panSpeed = nullish (opt_panSpeed options) 0.01,
       minDistance = nullish (opt_minDistance options) 1,
       maxDistance = nullish (opt_maxDistance options) 100,
       minPitch = nullish (opt_minPitch options) NegInfinity,
       maxPitch = nullish (opt_maxPitch options) Infinity,
       isDragging = False,
       isPanning = False,
       lastMouseX = 0,
       lastMouseY = 0,
       lastTouchDistance = None\<rparr>"

definition setTarget :: "Vec3 \<Rightarrow> OrbitCamera \<Rightarrow> OrbitCamera" where
  "setTarget t s = updateCameraPosition (s\<lparr>target := Vec3 (vx t) (vy t) (vz t)\<rparr>)"

text \<open>
  The argument of \<^verbatim>\<open>setDistance\<close> is a finite number here. The source accepts any
  number; for NaN, \<^verbatim>\<open>Math.min\<close> and \<^verbatim>\<open>Math.max\<close> return NaN, which has no counterpart in
  this model.
\<close>

definition setDistance :: "real \<Rightarrow> OrbitCamera \<Rightarrow> OrbitCamera" where
  "setDistance d s =
    updateCameraPosition (s\<lparr>distance := max (minDistance s) (min (maxDistance s) d)\<rparr>)"

definition reset :: "OrbitCamera \<Rightarrow> OrbitCamera" where
  "reset s = updateCameraPosition (s\<lparr>pitch := 0, yaw := 0, distance := 5\<rparr>)"

section \<open>The event handlers\<close>

record MouseEvent =
  button :: int
  shiftKey :: bool
  clientX :: real
  clientY :: real

datatype Touch = Touch (touchX: real) (touchY: real)

text \<open>
  The pitch clamp, written out twice in the source (in the rotate branch of the mouse
  handler and in that of the touch handler): applied only when both limits are finite,
  in which case both are real numbers \<open>lo\<close> and \<open>hi\<close>.
\<close>

definition clampPitch :: "OrbitCamera \<Rightarrow> OrbitCamera" where
  "clampPitch s =
    (if isFinite (minPitch s) \<and> isFinite (maxPitch s)
     then (case (minPitch s, maxPitch s) of
             (Num lo, Num hi) \<Rightarrow> s\<lparr>pitch := max lo (min hi (pitch s))\<rparr>
           | _ \<Rightarrow> s)
     else s)"

definition onMouseDown :: "MouseEvent \<Rightarrow> OrbitCamera \<Rightarrow> OrbitCamera" where
  "onMouseDown event s =
    (if button event = 0
     then (let s1 = (if shiftKey event then s\<lparr>isPanning := True\<rparr>
                     else s\<lparr>isDragging := True\<rparr>)
           in s1\<lparr>lastMouseX := clientX event, lastMouseY := clientY event\<rparr>)
     else s)"

definition onMouseMove :: "MouseEvent \<Rightarrow> OrbitCamera \<Rightarrow> OrbitCamera" where
  "onMouseMove event s =
    (if isPanning s
     then (let deltaX = clientX event - lastMouseX s;
               deltaY = clientY event - lastMouseY s;
               pitchRad = pitch s * DEG_TO_RAD;
               yawRad = yaw s * DEG_TO_RAD;
               rightX = cos yawRad;
               rightZ = - sin yawRad;
               upX = - sin yawRad * sin pitchRad;
               upY = cos pitchRad;
               upZ = - cos yawRad * sin pitchRad;
               panScale = panSpeed s * distance s;
               tx = vx (target s) + (rightX * deltaX * panScale - upX * deltaY * panScale);
               ty = vy (target s) - upY * deltaY * panScale;
               tz = vz (target s) + (rightZ * deltaX * panScale - upZ * deltaY * panScale)
           in updateCameraPosition
                (s\<lparr>target := Vec3 tx ty tz,
                   lastMouseX := clientX event,
                   lastMouseY := clientY event\<rparr>))
     else if isDragging s
     then (let deltaX = clientX event - lastMouseX s;
               deltaY = clientY event - lastMouseY s;
               s1 = s\<lparr>yaw := yaw s - deltaX * mouseSpeed s,
                      pitch := pitch s - deltaY * mouseSpeed s\<rparr>;
               s2 = clampPitch s1
           in updateCameraPosition
                (s2\<lparr>lastMouseX := clientX event, lastMouseY := clientY event\<rparr>))
     else s)"

definition onMouseUp :: "MouseEvent \<Rightarrow> OrbitCamera \<Rightarrow> OrbitCamera" where
  "onMouseUp event s =
    (if button event = 0 then s\<lparr>isDragging := False, isPanning := False\<rparr> else s)"

definition onMouseLeave :: "OrbitCamera \<Rightarrow> OrbitCamera" where
  "onMouseLeave s = s\<lparr>isDragging := False, isPanning := False\<rparr>"

definition onWheel :: "real \<Rightarrow> OrbitCamera \<Rightarrow> OrbitCamera" where
  "onWheel deltaY s =
    (let d = distance s + deltaY * wheelSpeed s
     in updateCameraPosition
          (s\<lparr>distance := max (minDistance s) (min (maxDistance s) d)\<rparr>))"

definition onTouchStart :: "Touch list \<Rightarrow> OrbitCamera \<Rightarrow> OrbitCamera" where
  "onTouchStart touches s =
    (if length touches = 1
     then s\<lparr>isDragging := True,
            lastMouseX := touchX (touches ! 0),
            lastMouseY := touchY (touches ! 0)\<rparr>
     else if length touches = 2
     then (let dx = touchX (touches ! 0) - touchX (touches ! 1);
               dy = touchY (touches ! 0) - touchY (touches ! 1)
           in s\<lparr>lastTouchDistance := Some (sqrt (dx * dx + dy * dy))\<rparr>)
     else s)"

definition onTouchMove :: "Touch list \<Rightarrow> OrbitCamera \<Rightarrow> OrbitCamera" where
  "onTouchMove touches s =
    (if length touches = 1 \<and> isDragging s
     then (let deltaX = touchX (touches ! 0) - lastMouseX s;
               deltaY = touchY (touches ! 0) - lastMouseY s;
               s1 = s\<lparr>yaw := yaw s - deltaX * mouseSpeed s,
                      pitch := pitch s - deltaY * mouseSpeed s\<rparr>;
               s2 = clampPitch s1
           in updateCameraPosition
                (s2\<lparr>lastMouseX := touchX (touches ! 0),
                    lastMouseY := touchY (touches ! 0)\<rparr>))
     else if length touches = 2 \<and> lastTouchDistance s \<noteq> None
     then (let dx = touchX (touches ! 0) - touchX (touches ! 1);
               dy = touchY (touches ! 0) - touchY (touches ! 1);
               newDistance = sqrt (dx * dx + dy * dy);
               delta = newDistance - the (lastTouchDistance s);
               d = distance s - delta * 0.01
           in updateCameraPosition
                (s\<lparr>distance := max (minDistance s) (min (maxDistance s) d),
                   lastTouchDistance := Some newDistance\<rparr>))
     else s)"

definition onTouchEnd :: "OrbitCamera \<Rightarrow> OrbitCamera" where
  "onTouchEnd s = s\<lparr>isDragging := False, lastTouchDistance := None\<rparr>"

section \<open>Runs of the controller\<close>

text \<open>
  What the host can do to a controller once it is constructed: deliver one of the eight
  events, or call one of the three public methods.
\<close>

datatype Operation =
    MouseDown MouseEvent
  | MouseMove MouseEvent
  | MouseUp MouseEvent
  | MouseLeave
  | Wheel real
  | TouchStart "Touch list"
  | TouchMove "Touch list"
  | TouchEnd
  | SetTarget Vec3
  | SetDistance real
  | Reset

fun perform :: "Operation \<Rightarrow> OrbitCamera \<Rightarrow> OrbitCamera" where
  "perform (MouseDown e) s = onMouseDown e s"
| "perform (MouseMove e) s = onMouseMove e s"
| "perform (MouseUp e) s = onMouseUp e s"
| "perform MouseLeave s = onMouseLeave s"
| "perform (Wheel d) s = onWheel d s"
| "perform (TouchStart ts) s = onTouchStart ts s"
| "perform (TouchMove ts) s = onTouchMove ts s"
| "perform TouchEnd s = onTouchEnd s"
| "perform (SetTarget t) s = setTarget t s"
| "perform (SetDistance d) s = setDistance d s"
| "perform Reset s = reset s"

fun run :: "Operation list \<Rightarrow> OrbitCamera \<Rightarrow> OrbitCamera" where
  "run [] s = s"
| "run (opn # ops) s = run ops (perform opn s)"

text \<open>The distance invariant of the specification.\<close>

definition distance_in_range :: "OrbitCamera \<Rightarrow> bool" where
  "distance_in_range s \<longleftrightarrow> minDistance s \<le> distance s \<and> distance s \<le> maxDistance s"

text \<open>
  Two fixed inputs for concrete runs: the options record \<^verbatim>\<open>{}\<close> (the default of the
  constructor's parameter), and an entity the controller has not yet placed.
\<close>

definition empty_options :: OrbitCameraOptions where
  "empty_options =
    \<lparr>opt_distance = None, opt_pitch = None, opt_yaw = None, opt_mouseSpeed = None,
     opt_wheelSpeed = None, opt_panSpeed = None, opt_minDistance = None,
     opt_maxDistance = None, opt_minPitch = None, opt_maxPitch = None\<rparr>"

definition fresh_entity :: Entity where
  "fresh_entity = \<lparr>position = Vec3 0 0 0, lookTarget = Vec3 0 0 (-1), lookUp = Vec3 0 1 0\<rparr>"

section \<open>Frame lemmas\<close>

lemmas handler_defs =
  onMouseDown_def onMouseMove_def onMouseUp_def onMouseLeave_def onWheel_def
  onTouchStart_def onTouchMove_def onTouchEnd_def setTarget_def setDistance_def reset_def

text \<open>The placement computation writes the camera entity and nothing else.\<close>

lemma updateCameraPosition_frame:
  "updateCameraPosition s\<lparr>camera := camera s\<rparr> = s"
  by (simp add: updateCameraPosition_def Let_def)

lemma updateCameraPosition_fields [simp]:
  "target (updateCameraPosition s) = target s"
  "distance (updateCameraPosition s) = distance s"
  "pitch (updateCameraPosition s) = pitch s"
  "yaw (updateCameraPosition s) = yaw s"
  "mouseSpeed (updateCameraPosition s) = mouseSpeed s"
  "wheelSpeed (updateCameraPosition s) = wheelSpeed s"
  "panSpeed (updateCameraPosition s) = panSpeed s"
  "minDistance (updateCameraPosition s) = minDistance s"
  "maxDistance (updateCameraPosition s) = maxDistance s"
  "minPitch (updateCameraPosition s) = minPitch s"
  "maxPitch (updateCameraPosition s) = maxPitch s"
  "isDragging (updateCameraPosition s) = isDragging s"
  "isPanning (updateCameraPosition s) = isPanning s"
  "lastMouseX (updateCameraPosition s) = lastMouseX s"
  "lastMouseY (updateCameraPosition s) = lastMouseY s"
  "lastTouchDistance (updateCameraPosition s) = lastTouchDistance s"
  by (simp_all add: updateCameraPosition_def Let_def)

lemma clampPitch_fields [simp]:
  "target (clampPitch s) = target s"
  "distance (clampPitch s) = distance s"
  "yaw (clampPitch s) = yaw s"
  "minDistance (clampPitch s) = minDistance s"
  "maxDistance (clampPitch s) = maxDistance s"
  "minPitch (clampPitch s) = minPitch s"
  "maxPitch (clampPitch s) = maxPitch s"
  by (simp_all add: clampPitch_def split: number.splits)

text \<open>No operation changes the configured distance limits.\<close>

lemma perform_limits [simp]:
  "minDistance (perform opn s) = minDistance s"
  "maxDistance (perform opn s) = maxDistance s"
  by (cases opn; simp add: handler_defs Let_def)+

lemma perform_distance_in_range:
  assumes "distance_in_range s"
    and "opn = Reset \<longrightarrow> minDistance s \<le> 5 \<and> 5 \<le> maxDistance s"
  shows "distance_in_range (perform opn s)"
  using assms by (cases opn; simp add: distance_in_range_def handler_defs Let_def)

section \<open>C1: the distance invariant\<close>

text \<open>
  C1 as stated fails. The constructor stores the supplied distance without clamping it,
  so a controller built with \<^verbatim>\<open>{distance: 200}\<close> and the default limits 1 and 100 starts
  outside the range; and \<^verbatim>\<open>reset\<close> stores the constant 5, which lies below a configured
  \<^verbatim>\<open>minDistance\<close> of 10.
\<close>

theorem distance_invariant_counterexample:
  "\<not> distance_in_range
       (new_OrbitCamera fresh_entity (empty_options\<lparr>opt_distance := Some 200\<rparr>))
   \<and> \<not> distance_in_range
         (reset (new_OrbitCamera fresh_entity
            (empty_options\<lparr>opt_distance := Some 20, opt_minDistance := Some 10\<rparr>)))"
  by (simp add: distance_in_range_def new_OrbitCamera_def empty_options_def reset_def)

text \<open>
  C1, amended. Over finite numbers (no NaN and no infinite value among the options, the
  event data and the argument of \<^verbatim>\<open>setDistance\<close>, and none produced by overflow):

  \<^item> whenever \<open>minDistance \<le> maxDistance\<close>, a wheel event, a two-touch move with a
    recorded pinch separation and \<^verbatim>\<open>setDistance\<close> leave
    \<open>minDistance \<le> distance \<le> maxDistance\<close>, whatever the state before;
  \<^item> press, mouse move (rotate-drag and pan), release, leave, touch start, single-touch
    move, touch end and \<^verbatim>\<open>setTarget\<close> leave the distance as it is, and no operation
    changes the limits;
  \<^item> hence, from every state in which the invariant holds (a controller constructed with
    its initial distance within the limits is one), it holds after every sequence of
    operations, provided that \<^verbatim>\<open>reset\<close> occurs in the sequence only when 5 lies within
    the limits.
\<close>

theorem distance_invariant_along_runs:
  "(minDistance s \<le> maxDistance s \<longrightarrow>
      distance_in_range (onWheel deltaY s)
      \<and> distance_in_range (setDistance d s)
      \<and> (lastTouchDistance s \<noteq> None \<longrightarrow> distance_in_range (onTouchMove [t0, t1] s)))
   \<and> distance (onMouseDown e s) = distance s
   \<and> distance (onMouseMove e s) = distance s
   \<and> distance (onMouseUp e s) = distance s
   \<and> distance (onMouseLeave s) = distance s
   \<and> distance (onTouchStart ts s) = distance s
   \<and> distance (onTouchMove [t] s) = distance s
   \<and> distance (onTouchEnd s) = distance s
   \<and> distance (setTarget p s) = distance s
   \<and> minDistance (perform opn s) = minDistance s
   \<and> maxDistance (perform opn s) = maxDistance s
   \<and> (distance_in_range s
       \<and> (Reset \<in> set ops \<longrightarrow> minDistance s \<le> 5 \<and> 5 \<le> maxDistance s)
      \<longrightarrow> distance_in_range (run ops s))"
proof -
  have zoom: "minDistance s \<le> maxDistance s \<longrightarrow>
      distance_in_range (onWheel deltaY s)
      \<and> distance_in_range (setDistance d s)
      \<and> (lastTouchDistance s \<noteq> None \<longrightarrow> distance_in_range (onTouchMove [t0, t1] s))"
    by (simp add: distance_in_range_def onWheel_def setDistance_def onTouchMove_def Let_def)
  have silent:
    "distance (onMouseDown e s) = distance s"
    "distance (onMouseMove e s) = distance s"
    "distance (onMouseUp e s) = distance s"
    "distance (onMouseLeave s) = distance s"
    "distance (onTouchStart ts s) = distance s"
    "distance (onTouchMove [t] s) = distance s"
    "distance (onTouchEnd s) = distance s"
    "distance (setTarget p s) = distance s"
    by (simp_all add: handler_defs Let_def)
  have along: "distance_in_range u \<Longrightarrow>
        (Reset \<in> set ops \<longrightarrow> minDistance u \<le> 5 \<and> 5 \<le> maxDistance u) \<Longrightarrow>
        distance_in_range (run ops u)" for u
  proof (induction ops arbitrary: u)
    case Nil
    then show ?case by simp
  next
    case (Cons opn ops)
    have "distance_in_range (perform opn u)"
      using Cons.prems by (intro perform_distance_in_range) auto
    moreover have "Reset \<in> set ops \<longrightarrow>
        minDistance (perform opn u) \<le> 5 \<and> 5 \<le> maxDistance (perform opn u)"
      using Cons.prems(2) by simp
    ultimately show ?case using Cons.IH by simp
  qed
  show ?thesis
    using zoom silent along [of s] by simp
qed

theorem distance_invariant_along_runs_witness:
  "minDistance (onTouchStart [Touch 0 0, Touch 100 0]
      (new_OrbitCamera fresh_entity (empty_options\<lparr>opt_distance := Some 200\<rparr>)))
     \<le> maxDistance (onTouchStart [Touch 0 0, Touch 100 0]
      (new_OrbitCamera fresh_entity (empty_options\<lparr>opt_distance := Some 200\<rparr>)))
   \<and> lastTouchDistance (onTouchStart [Touch 0 0, Touch 100 0]
      (new_OrbitCamera fresh_entity (empty_options\<lparr>opt_distance := Some 200\<rparr>))) \<noteq> None
   \<and> distance_in_range (onWheel 0 (onTouchStart [Touch 0 0, Touch 100 0]
      (new_OrbitCamera fresh_entity (empty_options\<lparr>opt_distance := Some 200\<rparr>))))
   \<and> distance_in_range (setDistance 0 (onTouchStart [Touch 0 0, Touch 100 0]
      (new_OrbitCamera fresh_entity (empty_options\<lparr>opt_distance := Some 200\<rparr>))))
   \<and> distance_in_range (onTouchMove [Touch 0 0, Touch 100 0]
      (onTouchStart [Touch 0 0, Touch 100 0]
        (new_OrbitCamera fresh_entity (empty_options\<lparr>opt_distance := Some 200\<rparr>))))
   \<and> distance_in_range (new_OrbitCamera fresh_entity empty_options)
   \<and> Reset \<in> set [Wheel 5000, Reset, SetDistance 0]
   \<and> minDistance (new_OrbitCamera fresh_entity empty_options) \<le> 5
   \<and> 5 \<le> maxDistance (new_OrbitCamera fresh_entity empty_options)
   \<and> distance_in_range
        (run [Wheel 5000, Reset, SetDistance 0] (new_OrbitCamera fresh_entity empty_options))"
proof -
  let ?u = "onTouchStart [Touch 0 0, Touch 100 0]
      (new_OrbitCamera fresh_entity (empty_options\<lparr>opt_distance := Some 200\<rparr>))"
  let ?s = "new_OrbitCamera fresh_entity empty_options"
  have u: "minDistance ?u \<le> maxDistance ?u" "lastTouchDistance ?u \<noteq> None"
    by (simp_all add: onTouchStart_def new_OrbitCamera_def empty_options_def)
  have a: "distance_in_range ?s"
    by (simp add: distance_in_range_def new_OrbitCamera_def empty_options_def)
  have b: "minDistance ?s \<le> 5" "5 \<le> maxDistance ?s"
    by (simp_all add: new_OrbitCamera_def empty_options_def)
  have "distance_in_range (onWheel 0 ?u) \<and> distance_in_range (setDistance 0 ?u)
      \<and> distance_in_range (onTouchMove [Touch 0 0, Touch 100 0] ?u)"
    using u distance_invariant_along_runs
      [where s = ?u and deltaY = 0 and d = 0 and ?t0.0 = "Touch 0 0" and ?t1.0 = "Touch 100 0"]
    by blast
  moreover have "distance_in_range (run [Wheel 5000, Reset, SetDistance 0] ?s)"
    using a b distance_invariant_along_runs
      [where s = ?s and ops = "[Wheel 5000, Reset, SetDistance 0]"]
    by blast
  ultimately show ?thesis using u a b by simp
qed

section \<open>C2: the rotate-drag step\<close>

text \<open>
  C2 as stated fails on the bound \<open>pitch \<le> maxPitch\<close>: the limits are not validated, and
  with \<^verbatim>\<open>{minPitch: 10, maxPitch: -10}\<close> (both finite) the clamp
  \<^verbatim>\<open>Math.max(minPitch, Math.min(maxPitch, pitch))\<close> returns \<open>minPitch = 10\<close>, which is
  above \<open>maxPitch\<close>. The run: construct, press the left button at (0,0), move to (0,10).
\<close>

theorem rotate_drag_pitch_counterexample:
  "minPitch (onMouseDown \<lparr>button = 0, shiftKey = False, clientX = 0, clientY = 0\<rparr>
      (new_OrbitCamera fresh_entity
         (empty_options\<lparr>opt_minPitch := Some (Num 10), opt_maxPitch := Some (Num (-10))\<rparr>)))
     = Num 10
   \<and> maxPitch (onMouseDown \<lparr>button = 0, shiftKey = False, clientX = 0, clientY = 0\<rparr>
      (new_OrbitCamera fresh_entity
         (empty_options\<lparr>opt_minPitch := Some (Num 10), opt_maxPitch := Some (Num (-10))\<rparr>)))
     = Num (-10)
   \<and> isDragging (onMouseDown \<lparr>button = 0, shiftKey = False, clientX = 0, clientY = 0\<rparr>
      (new_OrbitCamera fresh_entity
         (empty_options\<lparr>opt_minPitch := Some (Num 10), opt_maxPitch := Some (Num (-10))\<rparr>)))
   \<and> pitch (onMouseMove \<lparr>button = 0, shiftKey = False, clientX = 0, clientY = 10\<rparr>
       (onMouseDown \<lparr>button = 0, shiftKey = False, clientX = 0, clientY = 0\<rparr>
        (new_OrbitCamera fresh_entity
           (empty_options\<lparr>opt_minPitch := Some (Num 10), opt_maxPitch := Some (Num (-10))\<rparr>))))
     = 10
   \<and> \<not> pitch (onMouseMove \<lparr>button = 0, shiftKey = False, clientX = 0, clientY = 10\<rparr>
       (onMouseDown \<lparr>button = 0, shiftKey = False, clientX = 0, clientY = 0\<rparr>
        (new_OrbitCamera fresh_entity
           (empty_options\<lparr>opt_minPitch := Some (Num 10), opt_maxPitch := Some (Num (-10))\<rparr>))))
       \<le> -10"
  by (simp add: new_OrbitCamera_def empty_options_def handler_defs clampPitch_def)

text \<open>
  C2, amended: for every rotate-drag step (a mouse move while dragging and not panning,
  or a single-touch move while dragging) with deltas \<open>dx\<close>, \<open>dy\<close>: yaw becomes
  \<open>yaw - dx * mouseSpeed\<close>; if both pitch limits are finite, pitch becomes
  \<open>max minPitch (min maxPitch (pitch - dy * mouseSpeed))\<close>, which satisfies
  \<open>minPitch \<le> pitch \<le> maxPitch\<close> whenever \<open>minPitch \<le> maxPitch\<close>; if either limit is
  infinite, pitch becomes \<open>pitch - dy * mouseSpeed\<close>, unclamped, even when the other
  limit is finite.
\<close>

theorem rotate_drag_step:
  assumes "s' = onMouseMove e s \<and> \<not> isPanning s \<and> isDragging s
             \<and> dx = clientX e - lastMouseX s \<and> dy = clientY e - lastMouseY s
           \<or> s' = onTouchMove [t] s \<and> isDragging s
             \<and> dx = touchX t - lastMouseX s \<and> dy = touchY t - lastMouseY s"
  shows "yaw s' = yaw s - dx * mouseSpeed s
     \<and> (\<forall>lo hi. minPitch s = Num lo \<and> maxPitch s = Num hi \<longrightarrow>
          pitch s' = max lo (min hi (pitch s - dy * mouseSpeed s))
          \<and> (lo \<le> hi \<longrightarrow> lo \<le> pitch s' \<and> pitch s' \<le> hi))
     \<and> (\<not> isFinite (minPitch s) \<or> \<not> isFinite (maxPitch s) \<longrightarrow>
          pitch s' = pitch s - dy * mouseSpeed s)"
  using assms
  by (auto simp add: onMouseMove_def onTouchMove_def Let_def clampPitch_def
      split: number.splits)

theorem rotate_drag_step_witness:
  "isDragging (onMouseDown \<lparr>button = 0, shiftKey = False, clientX = 0, clientY = 0\<rparr>
      (new_OrbitCamera fresh_entity
         (empty_options\<lparr>opt_minPitch := Some (Num (-80)), opt_maxPitch := Some (Num 80)\<rparr>)))
   \<and> yaw (onMouseMove \<lparr>button = 0, shiftKey = False, clientX = 100, clientY = -1000\<rparr>
       (onMouseDown \<lparr>button = 0, shiftKey = False, clientX = 0, clientY = 0\<rparr>
        (new_OrbitCamera fresh_entity
         (empty_options\<lparr>opt_minPitch := Some (Num (-80)), opt_maxPitch := Some (Num 80)\<rparr>))))
      = -30
   \<and> pitch (onMouseMove \<lparr>button = 0, shiftKey = False, clientX = 100, clientY = -1000\<rparr>
       (onMouseDown \<lparr>button = 0, shiftKey = False, clientX = 0, clientY = 0\<rparr>
        (new_OrbitCamera fresh_entity
         (empty_options\<lparr>opt_minPitch := Some (Num (-80)), opt_maxPitch := Some (Num 80)\<rparr>))))
      = 80
   \<and> isDragging (onTouchStart [Touch 0 0] (new_OrbitCamera fresh_entity empty_options))
   \<and> pitch (onTouchMove [Touch 100 (-1000)]
        (onTouchStart [Touch 0 0] (new_OrbitCamera fresh_entity empty_options))) = 300"
proof -
  let ?s = "onMouseDown \<lparr>button = 0, shiftKey = False, clientX = 0, clientY = 0\<rparr>
      (new_OrbitCamera fresh_entity
         (empty_options\<lparr>opt_minPitch := Some (Num (-80)), opt_maxPitch := Some (Num 80)\<rparr>))"
  let ?e = "\<lparr>button = 0, shiftKey = False, clientX = 100, clientY = -1000\<rparr>"
  let ?u = "onTouchStart [Touch 0 0] (new_OrbitCamera fresh_entity empty_options)"
  have s: "isDragging ?s" "\<not> isPanning ?s" "minPitch ?s = Num (-80)" "maxPitch ?s = Num 80"
    "yaw ?s = 0" "pitch ?s = 0" "mouseSpeed ?s = 0.3" "lastMouseX ?s = 0" "lastMouseY ?s = 0"
    by (simp_all add: onMouseDown_def new_OrbitCamera_def empty_options_def)
  have u: "isDragging ?u" "\<not> isFinite (maxPitch ?u)"
    "pitch ?u = 0" "mouseSpeed ?u = 0.3" "lastMouseY ?u = 0"
    by (simp_all add: onTouchStart_def new_OrbitCamera_def empty_options_def)
  have "yaw (onMouseMove ?e ?s) = -30 \<and> pitch (onMouseMove ?e ?s) = 80"
    using rotate_drag_step [where s' = "onMouseMove ?e ?s" and e = ?e and s = ?s and dx = 100
        and dy = "-1000" and t = "Touch 0 0"] s
    by simp
  moreover have "pitch (onTouchMove [Touch 100 (-1000)] ?u) = 300"
    using rotate_drag_step [where s' = "onTouchMove [Touch 100 (-1000)] ?u" and e = ?e
        and s = ?u and dx = "100 - lastMouseX ?u" and dy = "-1000" and t = "Touch 100 (-1000)"] u
    by simp
  ultimately show ?thesis using s(1) u(1) by simp
qed

section \<open>C3 and C4: the placement computation\<close>

text \<open>
  C3: for every state, the placement computation sets the camera position to
  \<open>(target.x + distance * sin yaw * cos pitch, target.y + distance * sin pitch,
  target.z + distance * cos yaw * cos pitch)\<close>, with yaw and pitch converted from degrees
  to radians (multiplied by \<open>pi / 180\<close>); and a controller constructed with distance 5,
  pitch 0 and yaw 0 places the camera at (0,0,5), looking at (0,0,0).
\<close>

theorem placement_position:
  "position (camera (updateCameraPosition s)) =
     Vec3 (vx (target s) + distance s * sin (yaw s * (pi / 180)) * cos (pitch s * (pi / 180)))
          (vy (target s) + distance s * sin (pitch s * (pi / 180)))
          (vz (target s) + distance s * cos (yaw s * (pi / 180)) * cos (pitch s * (pi / 180)))
   \<and> position (camera (new_OrbitCamera cam
        (options\<lparr>opt_distance := Some 5, opt_pitch := Some 0, opt_yaw := Some 0\<rparr>)))
       = Vec3 0 0 5
   \<and> lookTarget (camera (new_OrbitCamera cam
        (options\<lparr>opt_distance := Some 5, opt_pitch := Some 0, opt_yaw := Some 0\<rparr>)))
       = Vec3 0 0 0"
  by (simp add: updateCameraPosition_def Let_def setPosition_def lookAt_def
      new_OrbitCamera_def DEG_TO_RAD_def)

text \<open>
  C4: for every state, the placement computation passes to \<^verbatim>\<open>lookAt\<close> the target and the
  up vector \<open>normalize (forward \<times> right)\<close>, where \<open>right = (cos yaw, 0, - sin yaw)\<close> (yaw
  in radians) and \<open>forward = target - cameraPosition\<close>.
\<close>

theorem placement_up_vector:
  "lookUp (camera (updateCameraPosition s)) =
     normalize (cross (vsub (target s) (position (camera (updateCameraPosition s))))
                      (Vec3 (cos (yaw s * (pi / 180))) 0 (- sin (yaw s * (pi / 180)))))
   \<and> lookTarget (camera (updateCameraPosition s)) = target s"
  by (simp add: updateCameraPosition_def Let_def setPosition_def lookAt_def cross_def vsub_def
      DEG_TO_RAD_def algebra_simps)

section \<open>C5: the initial target\<close>



section \<open>C6: reset\<close>

text \<open>
  C6: for every prior state, whatever its configuration, after \<^verbatim>\<open>reset\<close> the state has
  pitch 0, yaw 0 and distance 5, and the camera is placed from that state: running the
  placement computation again changes nothing, the camera is at \<open>target + (0,0,5)\<close>,
  looking at the target, with the up vector the computation derives there.
\<close>

theorem reset_fixed_defaults:
  "pitch (reset s) = 0 \<and> yaw (reset s) = 0 \<and> distance (reset s) = 5
   \<and> updateCameraPosition (reset s) = reset s
   \<and> position (camera (reset s)) = Vec3 (vx (target s)) (vy (target s)) (vz (target s) + 5)
   \<and> lookTarget (camera (reset s)) = target s
   \<and> lookUp (camera (reset s)) = Vec3 0 (-1) 0"
  by (simp add: reset_def updateCameraPosition_def Let_def setPosition_def lookAt_def
      normalize_def)

section \<open>C7: the pan step\<close>

text \<open>
  C7: for every mouse move in panning mode with deltas \<open>dx\<close>, \<open>dy\<close>, the target moves by
  \<open>right * dx * panScale - up * dy * panScale\<close> with \<open>panScale = panSpeed * distance\<close>,
  \<open>right = (cos yaw, 0, - sin yaw)\<close> and
  \<open>up = (- sin yaw * sin pitch, cos pitch, - cos yaw * sin pitch)\<close>, computed from the
  yaw and pitch of the state the step starts in; at yaw 0 and pitch 0 the target moves
  along X and Y only.
\<close>

theorem pan_step:
  assumes "isPanning s"
  shows
   "(let dx = clientX e - lastMouseX s;
         dy = clientY e - lastMouseY s;
         yawRad = yaw s * (pi / 180);
         pitchRad = pitch s * (pi / 180);
         right = Vec3 (cos yawRad) 0 (- sin yawRad);
         up = Vec3 (- sin yawRad * sin pitchRad) (cos pitchRad) (- cos yawRad * sin pitchRad);
         panScale = panSpeed s * distance s;
         s' = onMouseMove e s
     in target s' =
          vadd (target s)
            (vsub (vscale panScale (vscale dx right)) (vscale panScale (vscale dy up)))
        \<and> (yaw s = 0 \<and> pitch s = 0 \<longrightarrow>
             vx (target s') = vx (target s) + dx * panScale
             \<and> vy (target s') = vy (target s) - dy * panScale
             \<and> vz (target s') = vz (target s)))"
  using assms
  by (simp add: onMouseMove_def Let_def vadd_def vsub_def vscale_def DEG_TO_RAD_def
      algebra_simps)

theorem pan_step_witness:
  "isPanning (onMouseDown \<lparr>button = 0, shiftKey = True, clientX = 10, clientY = 20\<rparr>
      (new_OrbitCamera fresh_entity empty_options))
   \<and> target (onMouseMove \<lparr>button = 0, shiftKey = True, clientX = 30, clientY = 60\<rparr>
       (onMouseDown \<lparr>button = 0, shiftKey = True, clientX = 10, clientY = 20\<rparr>
         (new_OrbitCamera fresh_entity empty_options))) = Vec3 1 (-2) 0"
proof -
  let ?s = "onMouseDown \<lparr>button = 0, shiftKey = True, clientX = 10, clientY = 20\<rparr>
      (new_OrbitCamera fresh_entity empty_options)"
  let ?e = "\<lparr>button = 0, shiftKey = True, clientX = 30, clientY = 60\<rparr>"
  have p: "isPanning ?s"
    by (simp add: onMouseDown_def new_OrbitCamera_def)
  have f: "yaw ?s = 0" "pitch ?s = 0" "target ?s = Vec3 0 0 0" "lastMouseX ?s = 10"
    "lastMouseY ?s = 20" "panSpeed ?s = 0.01" "distance ?s = 5"
    by (simp_all add: onMouseDown_def new_OrbitCamera_def empty_options_def)
  have "target (onMouseMove ?e ?s) = Vec3 1 (-2) 0"
    using pan_step [OF p, of ?e] unfolding Let_def f
    by (simp add: vadd_def vsub_def vscale_def)
  then show ?thesis using p by simp
qed

section \<open>C8: the pinch step\<close>

text \<open>
  C8: for every two-touch move with a recorded last pinch separation \<open>l\<close>, distance
  becomes \<open>distance - (currentPinchDistance - l) * 0.01\<close> clamped by
  \<open>max minDistance (min maxDistance _)\<close> (a value within the limits when
  \<open>minDistance \<le> maxDistance\<close>), with the constant 0.01 whatever \<open>wheelSpeed\<close> and
  \<open>panSpeed\<close> are, and the last pinch separation becomes the current one; a pinch
  from separation 100 to 150 takes 0.5 off the distance, which is the new distance when
  it lies within the limits.
\<close>

theorem pinch_step:
  assumes "lastTouchDistance s = Some l"
  shows
   "(let dx = touchX t0 - touchX t1;
         dy = touchY t0 - touchY t1;
         currentPinchDistance = sqrt (dx * dx + dy * dy);
         s' = onTouchMove [t0, t1] s
     in distance s' =
          max (minDistance s) (min (maxDistance s)
            (distance s - (currentPinchDistance - l) * 0.01))
        \<and> lastTouchDistance s' = Some currentPinchDistance
        \<and> (minDistance s \<le> maxDistance s \<longrightarrow>
             minDistance s \<le> distance s' \<and> distance s' \<le> maxDistance s)
        \<and> (l = 100 \<and> currentPinchDistance = 150
             \<and> minDistance s \<le> distance s - 0.5 \<and> distance s - 0.5 \<le> maxDistance s
            \<longrightarrow> distance s' = distance s - 0.5))"
  using assms
  by (simp add: onTouchMove_def Let_def)

theorem pinch_step_witness:
  "lastTouchDistance (onTouchStart [Touch 0 0, Touch 100 0]
      (new_OrbitCamera fresh_entity empty_options)) = Some 100
   \<and> distance (onTouchMove [Touch 0 0, Touch 150 0]
       (onTouchStart [Touch 0 0, Touch 100 0]
         (new_OrbitCamera fresh_entity empty_options))) = 4.5
   \<and> lastTouchDistance (onTouchMove [Touch 0 0, Touch 150 0]
       (onTouchStart [Touch 0 0, Touch 100 0]
         (new_OrbitCamera fresh_entity empty_options))) = Some 150"
proof -
  let ?s = "onTouchStart [Touch 0 0, Touch 100 0] (new_OrbitCamera fresh_entity empty_options)"
  have l: "lastTouchDistance ?s = Some 100"
    by (simp add: onTouchStart_def new_OrbitCamera_def)
  have f: "distance ?s = 5" "minDistance ?s = 1" "maxDistance ?s = 100"
    by (simp_all add: onTouchStart_def new_OrbitCamera_def empty_options_def)
  show ?thesis
    using l pinch_step [OF l, of "Touch 0 0" "Touch 150 0"] f
    by (simp add: Let_def)
qed

section \<open>C9 and C10: frame properties\<close>

text \<open>
  C9: a mouse move delivered while the controller is neither rotating nor panning
  returns the state as it was: target, distance, yaw, pitch, the camera entity and every
  other field. The same holds for a single-touch move.
\<close>

theorem idle_move_noop:
  assumes "\<not> isDragging s" and "\<not> isPanning s"
  shows "onMouseMove e s = s \<and> onTouchMove [t] s = s"
  using assms by (simp add: onMouseMove_def onTouchMove_def)

theorem idle_move_noop_witness:
  "\<not> isDragging (new_OrbitCamera fresh_entity empty_options)
   \<and> \<not> isPanning (new_OrbitCamera fresh_entity empty_options)
   \<and> onMouseMove \<lparr>button = 0, shiftKey = False, clientX = 30, clientY = 60\<rparr>
        (new_OrbitCamera fresh_entity empty_options) = new_OrbitCamera fresh_entity empty_options
   \<and> onTouchMove [Touch 30 60] (new_OrbitCamera fresh_entity empty_options)
        = new_OrbitCamera fresh_entity empty_options"
proof -
  have a: "\<not> isDragging (new_OrbitCamera fresh_entity empty_options)"
    and b: "\<not> isPanning (new_OrbitCamera fresh_entity empty_options)"
    by (simp_all add: new_OrbitCamera_def)
  show ?thesis using a b idle_move_noop [OF a b] by simp
qed

text \<open>
  C10: a wheel event, a two-touch move and \<^verbatim>\<open>setDistance\<close> leave target, yaw and pitch
  as they were. Of the controller's fields they write only \<open>distance\<close> (and, for the
  two-touch move, the last pinch separation); the camera entity is placed again from
  the new distance.
\<close>

theorem zoom_frame:
  "(let s' = onWheel deltaY s in
      target s' = target s \<and> yaw s' = yaw s \<and> pitch s' = pitch s
      \<and> s'\<lparr>distance := distance s, camera := camera s\<rparr> = s)
   \<and> (let s' = onTouchMove [t0, t1] s in
      target s' = target s \<and> yaw s' = yaw s \<and> pitch s' = pitch s
      \<and> s'\<lparr>distance := distance s, lastTouchDistance := lastTouchDistance s,
            camera := camera s\<rparr> = s)
   \<and> (let s' = setDistance d s in
      target s' = target s \<and> yaw s' = yaw s \<and> pitch s' = pitch s
      \<and> s'\<lparr>distance := distance s, camera := camera s\<rparr> = s)"
  by (simp add: onWheel_def onTouchMove_def setDistance_def Let_def updateCameraPosition_def)

end
